theory Spec2Isabelle
  imports Main "HOL-Library.Word"
begin

unbundle bit_operations_syntax

section \<open>Go values\<close>

text \<open>
  Bytes are 8-bit words. Go's \<open>int\<close> is modelled as an unbounded integer: every index
  and length below is bounded by the size of a buffer held in memory, so the 64-bit
  range is never left. A slice is a list whose capacity equals its length. A failed
  bounds check is a run-time panic, which unwinds the whole call; it is the error
  value \<open>Panic\<close>.
\<close>

type_synonym byte = "8 word"

datatype error = Panic | StackExhausted | DecodeError

definition len :: "'a list \<Rightarrow> int" where
  "len xs = int (length xs)"

definition at :: "'a list \<Rightarrow> int \<Rightarrow> error + 'a" where
  "at xs i = (if 0 \<le> i \<and> i < len xs then Inr (xs ! nat i) else Inl Panic)"

definition slice :: "'a list \<Rightarrow> int \<Rightarrow> int \<Rightarrow> error + 'a list" where
  "slice xs lo hi =
     (if 0 \<le> lo \<and> lo \<le> hi \<and> hi \<le> len xs
      then Inr (take (nat (hi - lo)) (drop (nat lo) xs)) else Inl Panic)"

definition slice_from :: "'a list \<Rightarrow> int \<Rightarrow> error + 'a list" where
  "slice_from xs lo = slice xs lo (len xs)"

text \<open>Sequencing of steps that may fail: the first failure is the result.\<close>

definition err_bind :: "error + 'a \<Rightarrow> ('a \<Rightarrow> error + 'b) \<Rightarrow> error + 'b" where
  "err_bind m f = (case m of Inl e \<Rightarrow> Inl e | Inr x \<Rightarrow> f x)"

text \<open>
  \<open>binary.LittleEndian\<close>: \<open>Uint16\<close> and \<open>Uint32\<close> first touch the last byte they need
  and panic on a shorter slice; \<open>binary.Write\<close> lays fixed-size integers out with the
  low byte first.
\<close>

definition Uint16 :: "byte list \<Rightarrow> error + 16 word" where
  "Uint16 b =
     err_bind (at b 1) (\<lambda>b1.
     err_bind (at b 0) (\<lambda>b0. Inr (ucast b0 OR push_bit 8 (ucast b1))))"

definition Uint32 :: "byte list \<Rightarrow> error + 32 word" where
  "Uint32 b =
     err_bind (at b 3) (\<lambda>b3.
     err_bind (at b 0) (\<lambda>b0.
     err_bind (at b 1) (\<lambda>b1.
     err_bind (at b 2) (\<lambda>b2.
       Inr (ucast b0 OR push_bit 8 (ucast b1) OR push_bit 16 (ucast b2) OR push_bit 24 (ucast b3))))))"

definition put16 :: "16 word \<Rightarrow> byte list" where
  "put16 v = [ucast v, ucast (drop_bit 8 v)]"

definition put32 :: "32 word \<Rightarrow> byte list" where
  "put32 v = [ucast v, ucast (drop_bit 8 v), ucast (drop_bit 16 v), ucast (drop_bit 24 v)]"


section \<open>Run-length decompression: icnsBRLDecode\<close>

function icnsBRLDecode_loop :: "byte list \<Rightarrow> int \<Rightarrow> byte list \<Rightarrow> error + byte list" where
  "icnsBRLDecode_loop data i ret =
     (if i < len data then
        (case at data i of
           Inl e \<Rightarrow> Inl e
         | Inr b \<Rightarrow>
            if b < 0x80 then
              (let cnt = uint b + 1 in
               if i + cnt \<ge> len data then Inr ret
               else (case slice data (i + 1) (i + 1 + cnt) of
                       Inl e \<Rightarrow> Inl e
                     | Inr s \<Rightarrow> icnsBRLDecode_loop data (i + (cnt + 1)) (ret @ s)))
            else
              (let cnt = uint b - 0x80 + 3 in
               if i + 1 \<ge> len data then Inr ret
               else (case at data (i + 1) of
                       Inl e \<Rightarrow> Inl e
                     | Inr tb \<Rightarrow> icnsBRLDecode_loop data (i + 2) (ret @ replicate (nat cnt) tb))))
      else Inr ret)"
  by pat_completeness auto
termination
proof (relation "measure (\<lambda>(data, i, ret). nat (len data - i))")
  fix data :: "byte list" and i :: int and b :: byte and cnt :: int
  assume "i < len data" and "cnt = uint b + 1" and "\<not> len data \<le> i + cnt"
  moreover have "- 2 < uint b" using uint_ge_0 [of b] by linarith
  ultimately show "((data, i + (cnt + 1), ret @ s), (data, i, ret))
      \<in> measure (\<lambda>(data, i, ret). nat (len data - i))" for ret s :: "byte list"
    by simp
qed auto

declare icnsBRLDecode_loop.simps [simp del]

definition icnsBRLDecode :: "byte list \<Rightarrow> error + byte list" where
  "icnsBRLDecode data = icnsBRLDecode_loop data 0 []"

section \<open>Pixel buffers\<close>

text \<open>
  \<open>color.RGBA\<close> is a constructor with the four channels in the order R, G, B, A. An
  \<open>image.RGBA\<close> is its bounding rectangle and the colour of every point; a fresh image
  is transparent black everywhere, and \<open>Set\<close> outside the rectangle does nothing.
  \<open>image.Rect\<close> orders its corners, so a negative width or height gives a rectangle
  left of or above the origin.
\<close>

datatype rgba = RGBA (red: byte) (green: byte) (blue: byte) (alpha: byte)

record RGBAImage =
  MinX :: int
  MinY :: int
  MaxX :: int
  MaxY :: int
  At :: "int \<times> int \<Rightarrow> rgba"

definition NewRGBA :: "int \<Rightarrow> int \<Rightarrow> RGBAImage" where
  "NewRGBA w h =
     \<lparr>MinX = min 0 w, MinY = min 0 h, MaxX = max 0 w, MaxY = max 0 h,
      At = (\<lambda>_. RGBA 0 0 0 0)\<rparr>"

definition Set_RGBA :: "RGBAImage \<Rightarrow> int \<Rightarrow> int \<Rightarrow> rgba \<Rightarrow> RGBAImage" where
  "Set_RGBA img x y c =
     (if MinX img \<le> x \<and> x < MaxX img \<and> MinY img \<le> y \<and> y < MaxY img
      then img\<lparr>At := (At img)((x, y) := c)\<rparr> else img)"

section \<open>Loops with early return\<close>

text \<open>
  The body of a loop either goes on with a new state or returns from the enclosing
  function. \<open>scan\<close> is the pair of loops
  \<^verbatim>\<open>for yy := h - 1; yy >= 0; yy-- { for xx := 0; xx < w; xx++ { body } }\<close>
  of the bitmap decoder, started at \<open>yy = h - 1\<close> and \<open>xx = 0\<close>.
\<close>

datatype 's flow = Continue 's | Return 's

function scan :: "(int \<Rightarrow> int \<Rightarrow> 's \<Rightarrow> error + 's flow) \<Rightarrow> int \<Rightarrow> int \<Rightarrow> int \<Rightarrow> 's \<Rightarrow> error + 's" where
  "scan body w yy xx s =
     (if yy < 0 then Inr s
      else if xx < w then
        (case body xx yy s of
           Inl e \<Rightarrow> Inl e
         | Inr (Return s') \<Rightarrow> Inr s'
         | Inr (Continue s') \<Rightarrow> scan body w yy (xx + 1) s')
      else scan body w (yy - 1) 0 s)"
  by pat_completeness auto
termination
proof (relation "inv_image (measure nat <*lex*> measure nat) (\<lambda>(body, w, yy, xx, s). (yy + 1, w - xx))")
  show "wf (inv_image (measure nat <*lex*> measure nat)
          (\<lambda>(body :: int \<Rightarrow> int \<Rightarrow> 's \<Rightarrow> error + 's flow, w, yy, xx, s :: 's). (yy + 1, w - xx)))"
    by (intro wf_inv_image wf_lex_prod wf_measure)
qed simp_all

declare scan.simps [simp del]

section \<open>16-bit pixels: Convert16BitToARGB\<close>

definition Convert16BitToARGB :: "16 word \<Rightarrow> 32 word \<Rightarrow> rgba" where
  "Convert16BitToARGB v msk =
     (let r = (ucast (drop_bit 7 v AND 0xF8) :: 32 word);
          g = (ucast (push_bit 6 v AND 0xFC00) :: 32 word);
          b = push_bit 19 (ucast v :: 32 word) AND 0xF80000;
          r = drop_bit 8 (r * (drop_bit 16 msk AND 0xFF));
          g = drop_bit 8 (g * (drop_bit 8 msk AND 0xFF));
          b = drop_bit 8 (b * (msk AND 0xFF))
      in RGBA (ucast r) (ucast g) (ucast b) 0xFF)"

section \<open>Transparency mask: GetMaskBit\<close>

definition GetMaskBit :: "byte list \<Rightarrow> int \<Rightarrow> int \<Rightarrow> int \<Rightarrow> int \<Rightarrow> error + 32 word" where
  "GetMaskBit data x y w h =
     (let maskDataRowSize = drop_bit 5 (w + 31) * 4;
          byteIndex = maskDataRowSize * ((h - 1) - y) + drop_bit 3 x;
          bitIndex = nat (0x07 - (x AND 0x07))
      in err_bind (at data byteIndex) (\<lambda>d.
           let bit = drop_bit bitIndex d AND 1
           in if bit = 0 then Inr 0xFFFFFFFF else Inr 0))"

section \<open>Legacy bitmap decoder: CreateBmp32bppFromIconResData\<close>

text \<open>Four consecutive bytes B, G, R, A at index \<open>off\<close> of \<open>src\<close>.\<close>

definition bgra_at :: "byte list \<Rightarrow> int \<Rightarrow> error + rgba" where
  "bgra_at src off =
     err_bind (at src off) (\<lambda>b.
     err_bind (at src (off + 1)) (\<lambda>g.
     err_bind (at src (off + 2)) (\<lambda>r.
     err_bind (at src (off + 3)) (\<lambda>a. Inr (RGBA r g b a)))))"

definition body32 :: "byte list \<Rightarrow> int \<Rightarrow> int \<Rightarrow> int \<Rightarrow> RGBAImage \<Rightarrow> error + RGBAImage flow" where
  "body32 src w xx yy bmp =
     (if (yy * w * 4) + (xx * 4) + 3 \<ge> len src then Inr (Return bmp)
      else err_bind (bgra_at src ((yy * w * 4) + (xx * 4))) (\<lambda>c.
             Inr (Continue (Set_RGBA bmp xx yy c))))"

definition body24 :: "byte list \<Rightarrow> byte list \<Rightarrow> int \<Rightarrow> int \<Rightarrow> int \<Rightarrow> int \<Rightarrow> RGBAImage \<times> int
    \<Rightarrow> error + (RGBAImage \<times> int) flow" where
  "body24 src bitmask w h xx yy st =
     (case st of (bmp, pixel) \<Rightarrow>
        if pixel \<ge> len src div 3 then Inr (Return (bmp, pixel))
        else err_bind (at src (pixel * 3)) (\<lambda>r.
             err_bind (at src (pixel * 3 + 1)) (\<lambda>g.
             err_bind (at src (pixel * 3 + 2)) (\<lambda>b.
             err_bind (GetMaskBit bitmask xx yy w h) (\<lambda>msk.
               let r = r AND ucast (drop_bit 16 msk);
                   g = g AND ucast (drop_bit 8 msk);
                   b = b AND ucast msk
               in Inr (Continue (Set_RGBA bmp xx yy (RGBA r g b 0xFF), pixel + 1)))))))"

definition body16 :: "byte list \<Rightarrow> byte list \<Rightarrow> int \<Rightarrow> int \<Rightarrow> int \<Rightarrow> int \<Rightarrow> RGBAImage \<times> int
    \<Rightarrow> error + (RGBAImage \<times> int) flow" where
  "body16 src bitmask w h xx yy st =
     (case st of (bmp, pixel) \<Rightarrow>
        if pixel \<ge> len src div 2 then Inr (Return (bmp, pixel))
        else err_bind (slice_from src (pixel * 2)) (\<lambda>s.
             err_bind (Uint16 s) (\<lambda>v.
             err_bind (GetMaskBit bitmask xx yy w h) (\<lambda>msk.
               Inr (Continue (Set_RGBA bmp xx yy (Convert16BitToARGB v msk), pixel + 1))))))"

text \<open>
  The colour table loop \<^verbatim>\<open>for i := 0; i < colors; i++\<close>. \<open>None\<close> is the early
  \<^verbatim>\<open>return bmp\<close> on a table that does not fit the data.
\<close>

function palette_loop :: "byte list \<Rightarrow> int \<Rightarrow> int \<Rightarrow> rgba list \<Rightarrow> error + rgba list option" where
  "palette_loop src colors i pal =
     (if i < colors then
        (if (i * 4) + 3 \<ge> len src then Inr None
         else (case bgra_at src (i * 4) of
                 Inl e \<Rightarrow> Inl e
               | Inr c \<Rightarrow> (if 0 \<le> i \<and> i < len pal
                           then palette_loop src colors (i + 1) (pal[nat i := c])
                           else Inl Panic)))
      else Inr (Some pal))"
  by pat_completeness auto
termination
  by (relation "measure (\<lambda>(src, colors, i, pal). nat (colors - i))") auto

declare palette_loop.simps [simp del]

text \<open>\<^verbatim>\<open>make([]color.Color, n)\<close> followed by the colour table loop.\<close>

definition make_palette :: "byte list \<Rightarrow> int \<Rightarrow> error + rgba list option" where
  "make_palette src n =
     (if n < 0 then Inl Panic
      else palette_loop src n 0 (replicate (nat n) (RGBA 0 0 0 0)))"

definition body8 :: "byte list \<Rightarrow> rgba list \<Rightarrow> int \<Rightarrow> int \<Rightarrow> RGBAImage \<times> int
    \<Rightarrow> error + (RGBAImage \<times> int) flow" where
  "body8 src pal xx yy st =
     (case st of (bmp, pixel) \<Rightarrow>
        if pixel \<ge> len src then Inr (Return (bmp, pixel))
        else err_bind (at src pixel) (\<lambda>d.
               let colorIndex = uint d
               in if colorIndex < len pal
                  then err_bind (at pal colorIndex) (\<lambda>c.
                         Inr (Continue (Set_RGBA bmp xx yy c, pixel + 1)))
                  else Inr (Continue (Set_RGBA bmp xx yy (RGBA 0 0 0 0), pixel + 1))))"

definition body4 :: "byte list \<Rightarrow> rgba list \<Rightarrow> int \<Rightarrow> int \<Rightarrow> int \<Rightarrow> RGBAImage \<times> int
    \<Rightarrow> error + (RGBAImage \<times> int) flow" where
  "body4 src pal w xx yy st =
     (case st of (bmp, pixel) \<Rightarrow>
        if (yy * w div 2) + xx div 2 \<ge> len src then Inr (Return (bmp, pixel))
        else err_bind (at src ((yy * w div 2) + (xx div 2))) (\<lambda>d.
               let colorIndex = uint d;
                   colorIndex = (if xx mod 2 = 0 then drop_bit 4 colorIndex
                                 else colorIndex AND 0x0F)
               in if colorIndex < len pal
                  then err_bind (at pal colorIndex) (\<lambda>c.
                         Inr (Continue (Set_RGBA bmp xx yy c, pixel + 1)))
                  else Inr (Continue (Set_RGBA bmp xx yy (RGBA 0 0 0 0), pixel + 1))))"

definition body1 :: "byte list \<Rightarrow> byte list \<Rightarrow> rgba list \<Rightarrow> int \<Rightarrow> int \<Rightarrow> int \<Rightarrow> RGBAImage
    \<Rightarrow> error + RGBAImage flow" where
  "body1 bitmaskXOR bitmaskAND retColors w xx yy bmp =
     (let xorIndex = (yy * w + xx) div 8;
          andIndex = (yy * w + xx) div 8
      in if xorIndex \<ge> len bitmaskXOR \<or> andIndex \<ge> len bitmaskAND then Inr (Return bmp)
         else err_bind (at bitmaskXOR xorIndex) (\<lambda>x.
              err_bind (at bitmaskAND andIndex) (\<lambda>a.
                let xorBit = push_bit 1 (drop_bit (nat (7 - xx mod 8)) x AND 0x01);
                    andBit = drop_bit (nat (7 - xx mod 8)) a AND 0x01;
                    val = xorBit OR andBit
                in err_bind (at retColors (uint val)) (\<lambda>c.
                     Inr (Continue (Set_RGBA bmp xx yy c))))))"

definition CreateBmp32bppFromIconResData ::
    "byte list \<Rightarrow> int \<Rightarrow> int \<Rightarrow> int \<Rightarrow> int \<Rightarrow> error + RGBAImage" where
  "CreateBmp32bppFromIconResData data depth w h colors =
     (let bmp = NewRGBA w h;
          ignoreSize = 40;
          colorDataSize = (((drop_bit 3 ((w * depth) + 7)) + 3) AND NOT 3) * h
      in if depth = 32 then
           err_bind (slice_from data ignoreSize) (\<lambda>src.
             scan (body32 src w) w (h - 1) 0 bmp)
         else if depth = 24 then
           err_bind (slice_from data ignoreSize) (\<lambda>src.
           err_bind (slice_from data (ignoreSize + colorDataSize)) (\<lambda>bitmask.
           err_bind (scan (body24 src bitmask w h) w (h - 1) 0 (bmp, 0)) (\<lambda>st. Inr (fst st))))
         else if depth = 16 then
           err_bind (slice_from data ignoreSize) (\<lambda>src.
           err_bind (slice_from data (ignoreSize + colorDataSize)) (\<lambda>bitmask.
           err_bind (scan (body16 src bitmask w h) w (h - 1) 0 (bmp, 0)) (\<lambda>st. Inr (fst st))))
         else if depth = 8 then
           err_bind (slice_from data ignoreSize) (\<lambda>src.
           err_bind (make_palette src colors) (\<lambda>p.
             case p of
               None \<Rightarrow> Inr bmp
             | Some pal \<Rightarrow>
                 err_bind (scan (body8 src pal) w (h - 1) 0 (bmp, 0)) (\<lambda>st. Inr (fst st))))
         else if depth = 4 then
           err_bind (slice_from data ignoreSize) (\<lambda>src.
           err_bind (make_palette src colors) (\<lambda>p.
             case p of
               None \<Rightarrow> Inr bmp
             | Some pal \<Rightarrow>
                 err_bind (scan (body4 src pal w) w (h - 1) 0 (bmp, 0)) (\<lambda>st. Inr (fst st))))
         else if depth = 1 then
           err_bind (slice_from data ignoreSize) (\<lambda>src.
           err_bind (slice_from data (ignoreSize + (colors * 4))) (\<lambda>bitmaskXOR.
           err_bind (slice_from data (ignoreSize + (colors * 4) + colorDataSize)) (\<lambda>bitmaskAND.
           err_bind (make_palette src 4) (\<lambda>p.
             case p of
               None \<Rightarrow> Inr bmp
             | Some retColors \<Rightarrow> scan (body1 bitmaskXOR bitmaskAND retColors w) w (h - 1) 0 bmp))))
         else Inr bmp)"

section \<open>Icon directory structures\<close>

text \<open>
  The structs of the source, with embedded structs as record extensions. Several field
  names occur in more than one struct and are written with the struct's name in front.
\<close>

record ICONDIR =
  Reserved :: "16 word"
  Type :: "16 word"
  Count :: "16 word"

record IconCommon =
  Width :: byte
  Height :: byte
  Color :: byte
  Reserved :: byte
  Planes :: "16 word"
  BitCount :: "16 word"
  BytesInRes :: "32 word"

record RESDIR = IconCommon +
  ID :: "16 word"

record GRPICONDIR = ICONDIR +
  Entries :: "RESDIR list"

record ICONDIRENTRY = IconCommon +
  Offset :: "32 word"

record BITMAPINFOHEADER =
  Size :: "32 word"
  Width :: "32 word"
  Height :: "32 word"
  Planes :: "16 word"
  BitCount :: "16 word"
  Compression :: "32 word"
  SizeImage :: "32 word"
  XPelsPerMeter :: "32 word"
  YPelsPerMeter :: "32 word"
  ColorsUsed :: "32 word"
  ColorsImportant :: "32 word"

record Config =
  Format :: string
  Width :: int
  Height :: int
  Index :: int

text \<open>The zero values of the structs.\<close>

definition zero_ICONDIR :: ICONDIR where
  "zero_ICONDIR = \<lparr>ICONDIR.Reserved = 0, ICONDIR.Type = 0, Count = 0\<rparr>"

definition zero_RESDIR :: RESDIR where
  "zero_RESDIR =
     \<lparr>IconCommon.Width = 0, IconCommon.Height = 0, Color = 0, IconCommon.Reserved = 0,
      IconCommon.Planes = 0, IconCommon.BitCount = 0, BytesInRes = 0, ID = 0\<rparr>"

definition zero_ICONDIRENTRY :: ICONDIRENTRY where
  "zero_ICONDIRENTRY =
     \<lparr>IconCommon.Width = 0, IconCommon.Height = 0, Color = 0, IconCommon.Reserved = 0,
      IconCommon.Planes = 0, IconCommon.BitCount = 0, BytesInRes = 0, Offset = 0\<rparr>"

text \<open>The assignment \<^verbatim>\<open>e.IconCommon = r.IconCommon\<close> of the embedded struct.\<close>

definition assign_IconCommon :: "ICONDIRENTRY \<Rightarrow> RESDIR \<Rightarrow> ICONDIRENTRY" where
  "assign_IconCommon e r =
     e\<lparr>IconCommon.Width := IconCommon.Width r, IconCommon.Height := IconCommon.Height r,
       Color := Color r, IconCommon.Reserved := IconCommon.Reserved r,
       IconCommon.Planes := IconCommon.Planes r, IconCommon.BitCount := IconCommon.BitCount r,
       BytesInRes := BytesInRes r\<rparr>"

text \<open>\<open>binary.Write\<close> of a header and of a directory entry: 6 and 16 bytes.\<close>

definition put_ICONDIR :: "'a ICONDIR_scheme \<Rightarrow> byte list" where
  "put_ICONDIR d = put16 (ICONDIR.Reserved d) @ put16 (ICONDIR.Type d) @ put16 (Count d)"

definition put_IconCommon :: "'a IconCommon_scheme \<Rightarrow> byte list" where
  "put_IconCommon c =
     [IconCommon.Width c, IconCommon.Height c, Color c, IconCommon.Reserved c]
     @ put16 (IconCommon.Planes c) @ put16 (IconCommon.BitCount c) @ put32 (BytesInRes c)"

definition put_ICONDIRENTRY :: "ICONDIRENTRY \<Rightarrow> byte list" where
  "put_ICONDIRENTRY e = put_IconCommon e @ put32 (Offset e)"

text \<open>
  \<open>binary.Read\<close> of a \<open>BITMAPINFOHEADER\<close>: 40 bytes, an error on a shorter input.
\<close>

definition field16 :: "byte list \<Rightarrow> int \<Rightarrow> error + 16 word" where
  "field16 d off = err_bind (slice d off (off + 2)) Uint16"

definition field32 :: "byte list \<Rightarrow> int \<Rightarrow> error + 32 word" where
  "field32 d off = err_bind (slice d off (off + 4)) Uint32"

definition read_BITMAPINFOHEADER :: "byte list \<Rightarrow> error + BITMAPINFOHEADER" where
  "read_BITMAPINFOHEADER d =
     (if len d < 40 then Inl DecodeError
      else err_bind (field32 d 0) (\<lambda>size.
           err_bind (field32 d 4) (\<lambda>width.
           err_bind (field32 d 8) (\<lambda>height.
           err_bind (field16 d 12) (\<lambda>planes.
           err_bind (field16 d 14) (\<lambda>bitCount.
           err_bind (field32 d 16) (\<lambda>compression.
           err_bind (field32 d 20) (\<lambda>sizeImage.
           err_bind (field32 d 24) (\<lambda>xPels.
           err_bind (field32 d 28) (\<lambda>yPels.
           err_bind (field32 d 32) (\<lambda>colorsUsed.
           err_bind (field32 d 36) (\<lambda>colorsImportant.
             Inr \<lparr>Size = size, BITMAPINFOHEADER.Width = width,
                  BITMAPINFOHEADER.Height = height, BITMAPINFOHEADER.Planes = planes,
                  BITMAPINFOHEADER.BitCount = bitCount, Compression = compression,
                  SizeImage = sizeImage, XPelsPerMeter = xPels, YPelsPerMeter = yPels,
                  ColorsUsed = colorsUsed, ColorsImportant = colorsImportant\<rparr>))))))))))))"

section \<open>Canonical container assembler: writeICO\<close>

definition isPNG :: "byte list \<Rightarrow> bool" where
  "isPNG data = (len data > 8 \<and> take 8 data = [0x89, 0x50, 0x4E, 0x47, 0x0D, 0x0A, 0x1A, 0x0A])"

text \<open>
  The pixel size of an entry: the stored width and height, or, when one of them is 0,
  what \<open>image.DecodeConfig\<close> reads from the payload. \<open>DecodeConfig\<close> is the external
  codec; its error is dropped by the source, which then uses the size it returned.
\<close>

definition entry_size :: "(byte list \<Rightarrow> int \<times> int) \<Rightarrow> ICONDIRENTRY \<Rightarrow> byte list list \<Rightarrow> int
    \<Rightarrow> error + int \<times> int" where
  "entry_size DecodeConfig e data i =
     (if IconCommon.Width e \<le> 0 \<or> IconCommon.Height e \<le> 0
      then err_bind (at data i) (\<lambda>d. Inr (DecodeConfig d))
      else Inr (uint (IconCommon.Width e), uint (IconCommon.Height e)))"

text \<open>
  The loop over the entries when a target size is set. The state is
  \<open>(m, wdiff, hdiff, bm)\<close>; \<open>i\<close> is the index of the head of the list.
\<close>

fun select_target :: "(byte list \<Rightarrow> int \<times> int) \<Rightarrow> int \<Rightarrow> int \<Rightarrow> ICONDIRENTRY list
    \<Rightarrow> byte list list \<Rightarrow> int \<Rightarrow> int \<times> int \<times> int \<times> int \<Rightarrow> error + int \<times> int \<times> int \<times> int" where
  "select_target DecodeConfig W H [] data i st = Inr st"
| "select_target DecodeConfig W H (e # es) data i (m, wdiff, hdiff, bm) =
     (if IconCommon.BitCount e \<ge> word_of_int bm then
        (case entry_size DecodeConfig e data i of
           Inl err \<Rightarrow> Inl err
         | Inr (ws, hs) \<Rightarrow>
             if \<bar>ws - W\<bar> < wdiff \<and> \<bar>hs - H\<bar> < hdiff
             then select_target DecodeConfig W H es data (i + 1)
                    (i, \<bar>ws - W\<bar>, \<bar>hs - H\<bar>, uint (IconCommon.BitCount e))
             else select_target DecodeConfig W H es data (i + 1)
                    (m, wdiff, hdiff, uint (IconCommon.BitCount e)))
      else select_target DecodeConfig W H es data (i + 1) (m, wdiff, hdiff, bm))"

text \<open>
  The loop when a single raster is asked for without a target size. The state is
  \<open>(m, wm, hm, bm)\<close>.
\<close>

fun select_richest :: "(byte list \<Rightarrow> int \<times> int) \<Rightarrow> ICONDIRENTRY list
    \<Rightarrow> byte list list \<Rightarrow> int \<Rightarrow> int \<times> int \<times> int \<times> int \<Rightarrow> error + int \<times> int \<times> int \<times> int" where
  "select_richest DecodeConfig [] data i st = Inr st"
| "select_richest DecodeConfig (e # es) data i (m, wm, hm, bm) =
     (if IconCommon.BitCount e \<ge> word_of_int bm then
        (case entry_size DecodeConfig e data i of
           Inl err \<Rightarrow> Inl err
         | Inr (ws, hs) \<Rightarrow>
             if ws > wm \<and> hs > hm
             then select_richest DecodeConfig es data (i + 1)
                    (i, ws, hs, uint (IconCommon.BitCount e))
             else select_richest DecodeConfig es data (i + 1)
                    (m, wm, hm, uint (IconCommon.BitCount e)))
      else select_richest DecodeConfig es data (i + 1) (m, wm, hm, bm))"

text \<open>
  \<open>writeICO\<close> returns the bytes written to the output. The external parts are
  parameters: \<open>DecodeConfig\<close> (the size in an image header), \<open>IMG2ICO\<close> (the
  re-encoding of one raster through the image codecs) and \<open>pngEncode\<close> (drawing a
  decoded bitmap on a canvas of its size and encoding it as PNG).
\<close>

definition writeICO :: "(byte list \<Rightarrow> int \<times> int) \<Rightarrow> (byte list \<Rightarrow> Config list \<Rightarrow> error + byte list)
    \<Rightarrow> (RGBAImage \<Rightarrow> byte list) \<Rightarrow> 'a ICONDIR_scheme \<Rightarrow> ICONDIRENTRY list \<Rightarrow> byte list list
    \<Rightarrow> Config list \<Rightarrow> error + byte list" where
  "writeICO DecodeConfig IMG2ICO pngEncode idir entries data cfg =
     (if len cfg > 0 \<and> Config.Width (hd cfg) > 0 \<and> Config.Height (hd cfg) > 0 then
        err_bind (select_target DecodeConfig (Config.Width (hd cfg)) (Config.Height (hd cfg))
                    entries data 0 (0, 0xFFFFF, 0xFFFFF, 0)) (\<lambda>(m, wdiff, hdiff, bm).
        err_bind (at data m) (\<lambda>d.
          if isPNG d then IMG2ICO d cfg
          else err_bind (read_BITMAPINFOHEADER d) (\<lambda>bih.
               err_bind (CreateBmp32bppFromIconResData d bm
                           (sint (BITMAPINFOHEADER.Width bih)) (sint (BITMAPINFOHEADER.Height bih))
                           (uint (ColorsUsed bih))) (\<lambda>bmp.
                 IMG2ICO (pngEncode bmp) cfg))))
      else if len cfg \<le> 0 \<or> Format (hd cfg) \<noteq> ''png'' then
        Inr (put_ICONDIR idir @ concat (map put_ICONDIRENTRY entries) @ concat data)
      else
        err_bind (select_richest DecodeConfig entries data 0 (0, 0, 0, 0)) (\<lambda>(m, wm, hm, bm).
        err_bind (at data m) (\<lambda>d. Inr d)))"

section \<open>PE resource tree walker: parseDir\<close>

record Resource =
  Name :: string
  Data :: "byte list"

definition SECTION_RESOURCES :: string where "SECTION_RESOURCES = ''.rsrc''"
definition RT_ICON :: string where "RT_ICON = ''3/''"
definition RT_GROUP_ICON :: string where "RT_GROUP_ICON = ''14/''"

definition HasPrefix :: "string \<Rightarrow> string \<Rightarrow> bool" where
  "HasPrefix s pre = (take (length pre) s = pre)"

text \<open>\<open>strconv.Itoa\<close>: the decimal digits, after a minus sign for a negative number.\<close>

function digits_of :: "nat \<Rightarrow> string" where
  "digits_of n =
     (if n < 10 then [char_of (48 + n)]
      else digits_of (n div 10) @ [char_of (48 + n mod 10)])"
  by pat_completeness auto
termination
  by (relation "measure id") auto

declare digits_of.simps [simp del]

definition Itoa :: "int \<Rightarrow> string" where
  "Itoa i = (if i < 0 then CHR ''-'' # digits_of (nat (- i)) else digits_of (nat i))"

text \<open>
  The 16-bit units of a name: the loop that takes two bytes at a time while at least two
  are left.
\<close>

fun utf16_units :: "byte list \<Rightarrow> 16 word list" where
  "utf16_units (b0 # b1 # c) = (ucast b0 OR push_bit 8 (ucast b1)) # utf16_units c"
| "utf16_units c = []"

text \<open>
  The count of entries of the directory at \<open>p\<close>, the two fields of entry \<open>i\<close>, and the
  text of a named entry. \<open>utf16\<close> stands for \<open>string(utf16.Decode(r))\<close> of the standard
  library.
\<close>

definition dir_count :: "byte list \<Rightarrow> int \<Rightarrow> error + int" where
  "dir_count b p =
     err_bind (field16 b (p + 12)) (\<lambda>numberOfNamedEntries.
     err_bind (field16 b (p + 14)) (\<lambda>numberOfIdEntries.
       Inr (uint numberOfNamedEntries + uint numberOfIdEntries)))"

definition read_entry :: "byte list \<Rightarrow> int \<Rightarrow> int \<Rightarrow> error + int \<times> int" where
  "read_entry b p i =
     (let eo = 8 * i + p + 16 in
      err_bind (field32 b eo) (\<lambda>name.
      err_bind (field32 b (eo + 4)) (\<lambda>offsetToData.
        Inr (uint name, uint offsetToData))))"

definition entry_path :: "(16 word list \<Rightarrow> string) \<Rightarrow> byte list \<Rightarrow> string \<Rightarrow> int \<Rightarrow> error + string" where
  "entry_path utf16 b prefix name =
     (if name AND 0x80000000 > 0 then
        (let dirString = name AND 0x7FFFFFFF in
         err_bind (field16 b dirString) (\<lambda>l.
         err_bind (slice b (dirString + 2) (dirString + 2 + uint l * 2)) (\<lambda>c.
           Inr (prefix @ utf16 (utf16_units c)))))
      else Inr (prefix @ Itoa name))"

text \<open>The leaf: the data entry record at \<open>offsetToData\<close> and the bytes it points to.\<close>

definition read_data_entry :: "byte list \<Rightarrow> int \<Rightarrow> 32 word \<Rightarrow> error + byte list" where
  "read_data_entry b offsetToData virtual =
     err_bind (field32 b offsetToData) (\<lambda>off.
     err_bind (field32 b (offsetToData + 4)) (\<lambda>ln.
       let offset = uint off - uint virtual
       in slice b offset (offset + uint ln)))"

text \<open>
  One round of the loop over the entries of a directory. \<open>rec\<close> is the recursive call
  of \<open>parseDir\<close> on a subdirectory.
\<close>

definition parseEntry :: "(16 word list \<Rightarrow> string) \<Rightarrow> (int \<Rightarrow> string \<Rightarrow> error + Resource list)
    \<Rightarrow> byte list \<Rightarrow> int \<Rightarrow> string \<Rightarrow> 32 word \<Rightarrow> int \<Rightarrow> Resource list \<Rightarrow> error + Resource list" where
  "parseEntry utf16 rec b p prefix virtual i resources =
     err_bind (read_entry b p i) (\<lambda>(name, offsetToData).
     err_bind (entry_path utf16 b prefix name) (\<lambda>path.
       if offsetToData AND 0x80000000 > 0 then
         (let subdir = offsetToData AND 0x7FFFFFFF in
          err_bind (rec subdir (path @ ''/'')) (\<lambda>l. Inr (resources @ l)))
       else
         err_bind (read_data_entry b offsetToData virtual) (\<lambda>data.
           Inr (resources @ [\<lparr>Name = path, Data = data\<rparr>]))))"

function parseDir_loop :: "(int \<Rightarrow> Resource list \<Rightarrow> error + Resource list) \<Rightarrow> int \<Rightarrow> int
    \<Rightarrow> Resource list \<Rightarrow> error + Resource list" where
  "parseDir_loop step n i resources =
     (if i < n then
        (case step i resources of
           Inl e \<Rightarrow> Inl e
         | Inr resources' \<Rightarrow> parseDir_loop step n (i + 1) resources')
      else Inr resources)"
  by pat_completeness auto
termination
  by (relation "measure (\<lambda>(step, n, i, resources). nat (n - i))") auto

declare parseDir_loop.simps [simp del]

definition pruned :: "string \<Rightarrow> bool" where
  "pruned prefix =
     (prefix \<noteq> '''' \<and> \<not> HasPrefix prefix RT_GROUP_ICON \<and> \<not> HasPrefix prefix RT_ICON)"

text \<open>
  The recursion of \<open>parseDir\<close> follows the pointers of the input and need not end: a
  directory may point to itself. The first argument bounds the depth of the calls, as
  the stack does; a walk that needs more is the failure \<open>StackExhausted\<close>.
\<close>

fun parseDir :: "(16 word list \<Rightarrow> string) \<Rightarrow> nat \<Rightarrow> byte list \<Rightarrow> int \<Rightarrow> string \<Rightarrow> 32 word
    \<Rightarrow> error + Resource list" where
  "parseDir utf16 0 b p prefix virtual = Inl StackExhausted"
| "parseDir utf16 (Suc depth) b p prefix virtual =
     (if pruned prefix then Inr []
      else err_bind (dir_count b p) (\<lambda>n.
             parseDir_loop
               (parseEntry utf16 (\<lambda>subdir path. parseDir utf16 depth b subdir path virtual)
                  b p prefix virtual)
               n 0 []))"

text \<open>
  A data-entry pointer resolves outside the buffer when the 8-byte record it points to,
  or the range of bytes that record names (after the virtual address is taken off), is
  not inside the buffer.
\<close>

definition data_entry_outside :: "byte list \<Rightarrow> int \<Rightarrow> 32 word \<Rightarrow> bool" where
  "data_entry_outside b offsetToData virtual =
     (case (field32 b offsetToData, field32 b (offsetToData + 4)) of
        (Inr off, Inr ln) \<Rightarrow>
           \<not> (0 \<le> uint off - uint virtual \<and> uint off - uint virtual + uint ln \<le> len b)
      | _ \<Rightarrow> True)"

text \<open>
  The walk of the directory at \<open>p\<close> under \<open>prefix\<close> meets such a pointer: in a leaf of
  this directory, or in a subdirectory that the walk enters.
\<close>

inductive meets_outside_pointer :: "(16 word list \<Rightarrow> string) \<Rightarrow> byte list \<Rightarrow> 32 word
    \<Rightarrow> int \<Rightarrow> string \<Rightarrow> bool"
  for utf16 :: "16 word list \<Rightarrow> string" and b :: "byte list" and virtual :: "32 word" where
  leaf: "\<not> pruned prefix \<Longrightarrow> dir_count b p = Inr n \<Longrightarrow> 0 \<le> i \<Longrightarrow> i < n
      \<Longrightarrow> read_entry b p i = Inr (name, offsetToData)
      \<Longrightarrow> \<not> offsetToData AND 0x80000000 > 0
      \<Longrightarrow> data_entry_outside b offsetToData virtual
      \<Longrightarrow> meets_outside_pointer utf16 b virtual p prefix"
| subdir: "\<not> pruned prefix \<Longrightarrow> dir_count b p = Inr n \<Longrightarrow> 0 \<le> i \<Longrightarrow> i < n
      \<Longrightarrow> read_entry b p i = Inr (name, offsetToData)
      \<Longrightarrow> entry_path utf16 b prefix name = Inr path
      \<Longrightarrow> offsetToData AND 0x80000000 > 0
      \<Longrightarrow> meets_outside_pointer utf16 b virtual (offsetToData AND 0x7FFFFFFF) (path @ ''/'')
      \<Longrightarrow> meets_outside_pointer utf16 b virtual p prefix"

section \<open>Icons of a PE file: PE2ICO\<close>

text \<open>\<open>strings.Split(s, "/")\<close>.\<close>

fun Split_slash :: "string \<Rightarrow> string list" where
  "Split_slash [] = [[]]"
| "Split_slash (c # s) =
     (if c = CHR ''/'' then [] # Split_slash s
      else (case Split_slash s of
              [] \<Rightarrow> [[c]]
            | seg # segs \<Rightarrow> (c # seg) # segs))"

text \<open>
  \<open>strconv.ParseUint(s, 10, 64)\<close>, whose error the source drops: the value returned
  with a syntax error is 0, the value returned with a range error is \<open>2^64 - 1\<close>.
\<close>

fun ParseUint_loop :: "nat \<Rightarrow> string \<Rightarrow> nat" where
  "ParseUint_loop n [] = n"
| "ParseUint_loop n (c # s) =
     (let d = (of_char c :: nat) in
      if d < 48 \<or> 57 < d then 0
      else if n \<ge> (2 ^ 64 - 1) div 10 + 1 then 2 ^ 64 - 1
      else if n * 10 + (d - 48) > 2 ^ 64 - 1 then 2 ^ 64 - 1
      else ParseUint_loop (n * 10 + (d - 48)) s)"

definition ParseUint :: "string \<Rightarrow> nat" where
  "ParseUint s = (if s = '''' then 0 else ParseUint_loop 0 s)"

text \<open>
  The loop over the resources: the icon groups in their order, and the icon images by
  the 16 low bits of the number in the second segment of their name.
\<close>

fun classify :: "Resource list \<Rightarrow> Resource list \<times> (16 word \<rightharpoonup> Resource)
    \<Rightarrow> error + Resource list \<times> (16 word \<rightharpoonup> Resource)" where
  "classify [] st = Inr st"
| "classify (r # rs) (grpIcons, idmap) =
     (if HasPrefix (Name r) RT_GROUP_ICON then classify rs (grpIcons @ [r], idmap)
      else if HasPrefix (Name r) RT_ICON then
        (case at (Split_slash (Name r)) 1 of
           Inl e \<Rightarrow> Inl e
         | Inr seg \<Rightarrow> classify rs (grpIcons, idmap(word_of_nat (ParseUint seg) \<mapsto> r)))
      else classify rs (grpIcons, idmap))"

text \<open>
  \<open>binary.Read\<close> of the group header and of its members from a reader over the bytes of
  the group resource. The source drops the errors: a struct whose bytes are not all
  there keeps its zero value, and so do the structs after it.
\<close>

definition get16 :: "byte list \<Rightarrow> nat \<Rightarrow> 16 word" where
  "get16 d k = ucast (d ! k) OR push_bit 8 (ucast (d ! (k + 1)))"

definition get32 :: "byte list \<Rightarrow> nat \<Rightarrow> 32 word" where
  "get32 d k =
     ucast (d ! k) OR push_bit 8 (ucast (d ! (k + 1)))
       OR push_bit 16 (ucast (d ! (k + 2))) OR push_bit 24 (ucast (d ! (k + 3)))"

definition read_ICONDIR :: "byte list \<Rightarrow> ICONDIR" where
  "read_ICONDIR d =
     (if length d < 6 then zero_ICONDIR
      else \<lparr>ICONDIR.Reserved = get16 d 0, ICONDIR.Type = get16 d 2, Count = get16 d 4\<rparr>)"

definition read_RESDIR :: "byte list \<Rightarrow> nat \<Rightarrow> RESDIR" where
  "read_RESDIR d i =
     (let k = 6 + 14 * i in
      if length d < k + 14 then zero_RESDIR
      else \<lparr>IconCommon.Width = d ! k, IconCommon.Height = d ! (k + 1), Color = d ! (k + 2),
            IconCommon.Reserved = d ! (k + 3), IconCommon.Planes = get16 d (k + 4),
            IconCommon.BitCount = get16 d (k + 6), BytesInRes = get32 d (k + 8),
            ID = get16 d (k + 12)\<rparr>)"

definition read_GRPICONDIR :: "byte list \<Rightarrow> GRPICONDIR" where
  "read_GRPICONDIR d =
     (let h = read_ICONDIR d in
      \<lparr>ICONDIR.Reserved = ICONDIR.Reserved h, ICONDIR.Type = ICONDIR.Type h, Count = Count h,
       Entries = map (read_RESDIR d) [0 ..< unat (Count h)]\<rparr>)"

definition zero_GRPICONDIR :: GRPICONDIR where
  "zero_GRPICONDIR = \<lparr>ICONDIR.Reserved = 0, ICONDIR.Type = 0, Count = 0, Entries = []\<rparr>"

text \<open>
  The loop that fills the directory entries. \<open>i\<close> is the index of the head of the list
  of group members; the state is \<open>(entries, data, offset)\<close>.
\<close>

fun fill_entries :: "(16 word \<rightharpoonup> Resource) \<Rightarrow> RESDIR list \<Rightarrow> nat
    \<Rightarrow> ICONDIRENTRY list \<times> byte list list \<times> int \<Rightarrow> ICONDIRENTRY list \<times> byte list list \<times> int" where
  "fill_entries idmap [] i st = st"
| "fill_entries idmap (g # gs) i (entries, data, offset) =
     (case idmap (ID g) of
        Some r \<Rightarrow>
          fill_entries idmap gs (i + 1)
            (entries[i := (assign_IconCommon (entries ! i) g)\<lparr>Offset := word_of_int offset\<rparr>],
             data @ [Data r], offset + len (Data r))
      | None \<Rightarrow> fill_entries idmap gs (i + 1) (entries, data, offset))"

text \<open>
  What a conversion does: it writes the default artwork, which \<open>defaultICO\<close> picks by the
  kind of the file, or it writes the bytes that \<open>writeICO\<close> produced.
\<close>

datatype outcome = DefaultICO | Wrote "byte list"

text \<open>\<open>PE2ICO\<close> from the list of resources on: lines 603 to 653 of the source.\<close>

definition PE2ICO_resources :: "(byte list \<Rightarrow> int \<times> int) \<Rightarrow> (byte list \<Rightarrow> Config list \<Rightarrow> error + byte list)
    \<Rightarrow> (RGBAImage \<Rightarrow> byte list) \<Rightarrow> Resource list \<Rightarrow> Config list \<Rightarrow> error + outcome" where
  "PE2ICO_resources DecodeConfig IMG2ICO pngEncode resources cfg =
     err_bind (classify resources ([], Map.empty)) (\<lambda>(grpIcons, idmap).
       if len grpIcons \<le> 0 then Inr DefaultICO
       else
         err_bind
           (if len cfg > 0 \<and> Index (hd cfg) \<ge> 0 then
              (let cfg = (if Index (hd cfg) \<ge> len grpIcons
                          then cfg[0 := (hd cfg)\<lparr>Index := 0\<rparr>] else cfg)
               in err_bind (at grpIcons (Index (hd cfg))) (\<lambda>r.
                    Inr (read_GRPICONDIR (Data r), cfg)))
            else Inr (zero_GRPICONDIR, cfg)) (\<lambda>(gid, cfg).
         if Count gid \<le> 0 then Inr DefaultICO
         else
           (let entries = replicate (unat (Count gid)) zero_ICONDIRENTRY;
                offset = 6 + len entries * 16
            in case fill_entries idmap (Entries gid) 0 (entries, [], offset) of
                 (entries, data, offset) \<Rightarrow>
                   err_bind (writeICO DecodeConfig IMG2ICO pngEncode gid entries data cfg)
                     (\<lambda>out. Inr (Wrote out)))))"

text \<open>
  \<open>PE2ICO\<close> after \<open>pe.Open\<close>: \<open>rsrc\<close> is the data and the virtual address of the section
  \<open>.rsrc\<close>, or \<open>None\<close> when the file has no such section.
\<close>

definition PE2ICO :: "(16 word list \<Rightarrow> string) \<Rightarrow> nat \<Rightarrow> (byte list \<Rightarrow> int \<times> int)
    \<Rightarrow> (byte list \<Rightarrow> Config list \<Rightarrow> error + byte list) \<Rightarrow> (RGBAImage \<Rightarrow> byte list)
    \<Rightarrow> (byte list \<times> 32 word) option \<Rightarrow> Config list \<Rightarrow> error + outcome" where
  "PE2ICO utf16 depth DecodeConfig IMG2ICO pngEncode rsrc cfg =
     (case rsrc of
        None \<Rightarrow> Inr DefaultICO
      | Some (resTable, VirtualAddress) \<Rightarrow>
          err_bind (parseDir utf16 depth resTable 0 '''' VirtualAddress) (\<lambda>resources.
            PE2ICO_resources DecodeConfig IMG2ICO pngEncode resources cfg))"

section \<open>Apple icon container: ICNS2ICO\<close>

text \<open>
  An element of the parsed icon set (\<open>icns.Icon\<close>): the four bytes of its type and its
  data. Type tags are compared as byte strings.
\<close>

record Icon =
  Type :: "byte list"
  Data :: "byte list"















section \<open>Properties of the run-length decompressor\<close>
lemma len_nonneg [simp]: "0 \<le> len xs" by (simp add: len_def)

lemma uint_gt_m2 [simp]: "- 2 < uint (b :: byte)"
  using uint_ge_0 [of b] by linarith

lemma icnsBRLDecode_loop_total:
  "0 \<le> i \<Longrightarrow> \<exists>out. icnsBRLDecode_loop data i ret = Inr out"
proof (induction data i ret rule: icnsBRLDecode_loop.induct)
  case (1 data i ret)
  show ?case
  proof (cases "i < len data")
    case False
    then show ?thesis by (simp add: icnsBRLDecode_loop.simps)
  next
    case True
    with 1(3) have b: "at data i = Inr (data ! nat i)" by (simp add: at_def)
    let ?b = "data ! nat i"
    show ?thesis
    proof (cases "?b < 0x80")
      case lit: True
      let ?cnt = "uint ?b + 1"
      show ?thesis
      proof (cases "i + ?cnt \<ge> len data")
        case True
        with \<open>i < len data\<close> b lit show ?thesis
          by (subst icnsBRLDecode_loop.simps) simp
      next
        case False
        with 1(3) obtain s where s: "slice data (i + 1) (i + 1 + ?cnt) = Inr s"
          by (simp add: slice_def)
        have "0 \<le> i + (?cnt + 1)" using 1(3) by simp
        from 1(1) [OF \<open>i < len data\<close> b lit refl False s this]
        obtain out where "icnsBRLDecode_loop data (i + (?cnt + 1)) (ret @ s) = Inr out" by blast
        with \<open>i < len data\<close> b lit False s show ?thesis
          by (subst icnsBRLDecode_loop.simps) (simp add: Let_def)
      qed
    next
      case rep: False
      let ?cnt = "uint ?b - 0x80 + 3"
      show ?thesis
      proof (cases "i + 1 \<ge> len data")
        case True
        with \<open>i < len data\<close> b rep show ?thesis
          by (subst icnsBRLDecode_loop.simps) simp
      next
        case False
        with 1(3) have tb: "at data (i + 1) = Inr (data ! nat (i + 1))" by (simp add: at_def)
        have "0 \<le> i + 2" using 1(3) by simp
        from 1(2) [OF \<open>i < len data\<close> b rep refl False tb this]
        obtain out where "icnsBRLDecode_loop data (i + 2) (ret @ replicate (nat ?cnt) (data ! nat (i + 1))) = Inr out" by blast
        with \<open>i < len data\<close> b rep False tb show ?thesis
          by (subst icnsBRLDecode_loop.simps) (simp add: Let_def)
      qed
    qed
  qed
qed


lemma loop_end: "\<not> i < len data \<Longrightarrow> icnsBRLDecode_loop data i ret = Inr ret"
  by (subst icnsBRLDecode_loop.simps) simp

lemma loop_lit_trunc:
  "0 \<le> i \<Longrightarrow> i < len data \<Longrightarrow> data ! nat i < 0x80 \<Longrightarrow> len data \<le> i + uint (data ! nat i) + 1
   \<Longrightarrow> icnsBRLDecode_loop data i ret = Inr ret"
  by (subst icnsBRLDecode_loop.simps) (simp add: at_def Let_def)

lemma loop_lit:
  "0 \<le> i \<Longrightarrow> i < len data \<Longrightarrow> data ! nat i < 0x80 \<Longrightarrow> i + uint (data ! nat i) + 1 < len data
   \<Longrightarrow> icnsBRLDecode_loop data i ret =
       icnsBRLDecode_loop data (i + (uint (data ! nat i) + 1 + 1))
         (ret @ take (nat (uint (data ! nat i) + 1)) (drop (nat (i + 1)) data))"
  by (subst icnsBRLDecode_loop.simps) (simp add: at_def slice_def Let_def add.commute)

lemma loop_rep_trunc:
  "0 \<le> i \<Longrightarrow> i < len data \<Longrightarrow> \<not> data ! nat i < 0x80 \<Longrightarrow> len data \<le> i + 1
   \<Longrightarrow> icnsBRLDecode_loop data i ret = Inr ret"
  by (subst icnsBRLDecode_loop.simps) (simp add: at_def Let_def)

lemma loop_rep:
  "0 \<le> i \<Longrightarrow> i < len data \<Longrightarrow> \<not> data ! nat i < 0x80 \<Longrightarrow> i + 1 < len data
   \<Longrightarrow> icnsBRLDecode_loop data i ret =
       icnsBRLDecode_loop data (i + 2)
         (ret @ replicate (nat (uint (data ! nat i) - 0x80 + 3)) (data ! nat (i + 1)))"
  by (subst icnsBRLDecode_loop.simps) (simp add: at_def Let_def)

lemma loop_cases:
  assumes "0 \<le> i"
  obtains (fin) "\<not> i < len data"
  | (lit_trunc) "i < len data" "data ! nat i < 0x80" "len data \<le> i + uint (data ! nat i) + 1"
  | (lit) "i < len data" "data ! nat i < 0x80" "i + uint (data ! nat i) + 1 < len data"
  | (rep_trunc) "i < len data" "\<not> data ! nat i < 0x80" "len data \<le> i + 1"
  | (rep) "i < len data" "\<not> data ! nat i < 0x80" "i + 1 < len data"
  by linarith

lemma loop_append:
  "0 \<le> i \<Longrightarrow> icnsBRLDecode_loop data i (r1 @ r2) = map_sum id ((@) r1) (icnsBRLDecode_loop data i r2)"
proof (induction "nat (len data - i)" arbitrary: i r2 rule: less_induct)
  case less
  from \<open>0 \<le> i\<close> show ?case
  proof (cases rule: loop_cases [of i data])
    case fin
    then show ?thesis by (simp add: loop_end)
  next
    case lit_trunc
    with less.prems show ?thesis by (simp add: loop_lit_trunc)
  next
    case lit
    let ?j = "i + (uint (data ! nat i) + 1 + 1)"
    have "nat (len data - ?j) < nat (len data - i)" "0 \<le> ?j" using lit less.prems by simp_all
    from less.hyps [OF this] lit less.prems show ?thesis by (simp add: loop_lit)
  next
    case rep_trunc
    with less.prems show ?thesis by (simp add: loop_rep_trunc)
  next
    case rep
    have "nat (len data - (i + 2)) < nat (len data - i)" "0 \<le> i + 2" using rep less.prems by simp_all
    from less.hyps [OF this] rep less.prems show ?thesis by (simp add: loop_rep)
  qed
qed

lemma loop_shift:
  "0 \<le> i \<Longrightarrow> icnsBRLDecode_loop (pre @ data) (len pre + i) ret = icnsBRLDecode_loop data i ret"
proof (induction "nat (len data - i)" arbitrary: i ret rule: less_induct)
  case less
  have nth: "(pre @ data) ! nat (len pre + j) = data ! nat j" if "0 \<le> j" for j
    using that by (simp add: len_def nth_append nat_add_distrib)
  have l: "len (pre @ data) = len pre + len data" by (simp add: len_def)
  have dr: "drop (nat (len pre + j)) (pre @ data) = drop (nat j) data" if "0 \<le> j" for j
    using that by (simp add: len_def nat_add_distrib)
  from \<open>0 \<le> i\<close> show ?case
  proof (cases rule: loop_cases [of i data])
    case fin
    then show ?thesis by (simp add: loop_end l)
  next
    case lit_trunc
    with less.prems show ?thesis by (simp add: loop_lit_trunc l nth)
  next
    case lit
    let ?j = "i + (uint (data ! nat i) + 1 + 1)"
    have "nat (len data - ?j) < nat (len data - i)" "0 \<le> ?j" using lit less.prems by simp_all
    note ih = less.hyps [OF this]
    have "icnsBRLDecode_loop (pre @ data) (len pre + i) ret =
          icnsBRLDecode_loop (pre @ data) (len pre + ?j)
            (ret @ take (nat (uint (data ! nat i) + 1)) (drop (nat (len pre + (i + 1))) (pre @ data)))"
      using lit less.prems
      by (subst loop_lit) (simp_all add: l nth add.assoc)
    also have "\<dots> = icnsBRLDecode_loop data i ret"
      using lit less.prems by (simp only: dr [of "i + 1"] ih) (simp add: loop_lit)
    finally show ?thesis .
  next
    case rep_trunc
    with less.prems show ?thesis by (simp add: loop_rep_trunc l nth)
  next
    case rep
    have "nat (len data - (i + 2)) < nat (len data - i)" "0 \<le> i + 2" using rep less.prems by simp_all
    note ih = less.hyps [OF this]
    have "icnsBRLDecode_loop (pre @ data) (len pre + i) ret =
          icnsBRLDecode_loop (pre @ data) (len pre + (i + 2))
            (ret @ replicate (nat (uint (data ! nat i) - 0x80 + 3)) ((pre @ data) ! nat (len pre + (i + 1))))"
      using rep less.prems
      by (subst loop_rep) (simp_all add: l nth add.assoc)
    also have "\<dots> = icnsBRLDecode_loop data i ret"
      using rep less.prems by (simp add: ih nth loop_rep)
    finally show ?thesis .
  qed
qed

lemma decode_ex_literal: "icnsBRLDecode [0x00, 0xAA] = Inr [0xAA]" by code_simp
lemma decode_ex_repeat: "icnsBRLDecode [0x83, 0x42] = Inr (replicate 6 0x42)" by code_simp
lemma decode_ex_truncated_literal: "icnsBRLDecode [0x02, 0xAA] = Inr []" by code_simp

lemma decode_lit:
  assumes "c < 0x80" "length lits = unat c + 1" "icnsBRLDecode rest = Inr out"
  shows "icnsBRLDecode (c # lits @ rest) = Inr (lits @ out)"
proof -
  let ?d = "c # lits @ rest"
  have u: "uint c + 1 = len lits" using assms(2) by (simp add: len_def)
  have "icnsBRLDecode_loop ?d 0 [] = icnsBRLDecode_loop ?d (0 + (uint (?d ! nat 0) + 1 + 1))
         ([] @ take (nat (uint (?d ! nat 0) + 1)) (drop (nat (0 + 1)) ?d))"
    using assms(1) u by (intro loop_lit) (simp_all add: len_def)
  also have "\<dots> = icnsBRLDecode_loop ((c # lits) @ rest) (len (c # lits) + 0) lits"
    using u by (simp add: len_def add.commute)
  also have "\<dots> = icnsBRLDecode_loop rest 0 (lits @ [])"
    by (subst loop_shift) simp_all
  also have "\<dots> = Inr (lits @ out)"
    using assms(3) by (subst loop_append) (simp_all add: icnsBRLDecode_def)
  finally show ?thesis by (simp add: icnsBRLDecode_def)
qed

lemma decode_rep:
  assumes "0x80 \<le> c" "icnsBRLDecode rest = Inr out"
  shows "icnsBRLDecode (c # b # rest) = Inr (replicate (unat c - 0x80 + 3) b @ out)"
proof -
  let ?d = "c # b # rest"
  have "128 \<le> uint c" using assms(1) by (simp add: word_le_def)
  moreover have "uint c = int (unat c)" by simp
  ultimately have n: "nat (uint c - 0x80 + 3) = unat c - 0x80 + 3" by linarith
  have "icnsBRLDecode_loop ?d 0 [] = icnsBRLDecode_loop ?d (0 + 2)
         ([] @ replicate (nat (uint (?d ! nat 0) - 0x80 + 3)) (?d ! nat (0 + 1)))"
    using assms(1) by (intro loop_rep) (simp_all add: len_def not_less)
  also have "\<dots> = icnsBRLDecode_loop ([c, b] @ rest) (len [c, b] + 0) (replicate (unat c - 0x80 + 3) b @ [])"
    using n by (simp add: len_def)
  also have "\<dots> = icnsBRLDecode_loop rest 0 (replicate (unat c - 0x80 + 3) b @ [])"
    by (subst loop_shift) simp_all
  also have "\<dots> = Inr (replicate (unat c - 0x80 + 3) b @ out)"
    using assms(2) by (subst loop_append) (simp_all add: icnsBRLDecode_def)
  finally show ?thesis by (simp add: icnsBRLDecode_def)
qed

lemma decode_rep_trunc: "0x80 \<le> c \<Longrightarrow> icnsBRLDecode [c] = Inr []"
  unfolding icnsBRLDecode_def by (rule loop_rep_trunc) (simp_all add: len_def not_less)

lemma decode_lit_trunc:
  "c < 0x80 \<Longrightarrow> length lits < unat c + 1 \<Longrightarrow> icnsBRLDecode (c # lits) = Inr []"
proof -
  assume c: "c < 0x80" and l: "length lits < unat c + 1"
  have "uint c = int (unat c)" by simp
  with l have "int (length lits) \<le> uint c" by linarith
  then have "len (c # lits) \<le> 0 + uint ((c # lits) ! nat 0) + 1" by (simp add: len_def)
  with c show ?thesis
    unfolding icnsBRLDecode_def by (intro loop_lit_trunc) (simp_all add: len_def)
qed

section \<open>Properties of the 16-bit pixel conversion\<close>

lemma low_byte_zero: "(ucast (drop_bit 8 (push_bit 19 (x :: 32 word))) :: byte) = 0"
  by (rule bit_word_eqI) (simp add: bit_simps)

lemma blue_term: "push_bit 19 (a :: 32 word) AND 0xF80000 = push_bit 19 (a AND 0x1F)"
proof -
  have "(0xF80000 :: 32 word) = push_bit 19 0x1F" by simp
  then show ?thesis by (simp only: push_bit_and)
qed

lemma blue_zero: "blue (Convert16BitToARGB v m) = 0"
proof -
  have a: "push_bit 19 (ucast v :: 32 word) AND 0xF80000 = push_bit 19 (ucast v AND 0x1F)"
    by (rule blue_term)
  have b: "push_bit 19 (y :: 32 word) * z = push_bit 19 (y * z)" for y z
    by (simp add: push_bit_eq_mult mult.assoc mult.commute mult.left_commute)
  have "(push_bit 19 (ucast v :: 32 word) AND 0xF80000) * (m AND 0xFF)
      = push_bit 19 ((ucast v AND 0x1F) * (m AND 0xFF))" by (simp only: a b)
  then show ?thesis
    by (simp add: Convert16BitToARGB_def Let_def low_byte_zero)
qed

section \<open>Properties of the PE conversion\<close>

lemma Split_slash_not_Nil: "Split_slash s \<noteq> []"
  by (induction s) (auto split: list.splits)

lemma Split_slash_second:
  assumes "HasPrefix s RT_ICON"
  shows "\<exists>seg. at (Split_slash s) 1 = Inr seg"
proof -
  from assms obtain rest where s: "s = CHR ''3'' # CHR ''/'' # rest"
    by (cases s; cases "tl s") (auto simp: HasPrefix_def RT_ICON_def)
  obtain x xs where "Split_slash rest = x # xs"
    using Split_slash_not_Nil [of rest] by (cases "Split_slash rest") auto
  then show ?thesis by (simp add: s at_def len_def)
qed

lemma classify_total: "\<exists>g m. classify rs st = Inr (g, m)"
proof (induction rs arbitrary: st)
  case Nil
  then show ?case by (cases st) simp
next
  case (Cons r rs)
  obtain g m where st: "st = (g, m)" by (cases st)
  show ?case
  proof (cases "HasPrefix (Name r) RT_GROUP_ICON")
    case True
    then show ?thesis using Cons.IH by (simp add: st)
  next
    case False
    show ?thesis
    proof (cases "HasPrefix (Name r) RT_ICON")
      case True
      then obtain seg where "at (Split_slash (Name r)) 1 = Inr seg"
        using Split_slash_second by blast
      then show ?thesis using False True Cons.IH by (simp add: st)
    next
      case nicon: False
      then show ?thesis using False Cons.IH by (simp add: st)
    qed
  qed
qed

lemma PE2ICO_resources_no_index:
  assumes "cfg = [] \<or> Index (hd cfg) < 0"
  shows "PE2ICO_resources DC I2I PE resources cfg = Inr DefaultICO"
proof -
  obtain g m where c: "classify resources ([], Map.empty) = Inr (g, m)"
    using classify_total by blast
  have sel: "\<not> (len cfg > 0 \<and> Index (hd cfg) \<ge> 0)"
    using assms by (auto simp: len_def)
  show ?thesis
    unfolding PE2ICO_resources_def c err_bind_def
    using sel by (auto simp: zero_GRPICONDIR_def)
qed

text \<open>A file with one group of one icon, converted with the group index 0.\<close>

lemma classify_example: "classify [\<lparr>Name = ''14/1/1033'',
       Data = [0, 0, 1, 0, 1, 0, 16, 16, 0, 0, 1, 0, 32, 0, 4, 0, 0, 0, 1, 0]\<rparr>,
      \<lparr>Name = ''3/1/1033'', Data = [1, 2, 3, 4]\<rparr>] ([], Map.empty)
   = Inr ([\<lparr>Name = ''14/1/1033'',
       Data = [0, 0, 1, 0, 1, 0, 16, 16, 0, 0, 1, 0, 32, 0, 4, 0, 0, 0, 1, 0]\<rparr>],
       [1 \<mapsto> \<lparr>Name = ''3/1/1033'', Data = [1, 2, 3, 4]\<rparr>])"
  by (simp add: HasPrefix_def RT_GROUP_ICON_def RT_ICON_def at_def len_def ParseUint_def)

lemma read_GRPICONDIR_example: "read_GRPICONDIR [0, 0, 1, 0, 1, 0, 16, 16, 0, 0, 1, 0, 32, 0, 4, 0, 0, 0, 1, 0]
  = \<lparr>ICONDIR.Reserved = 0, ICONDIR.Type = 1, Count = 1, Entries = [\<lparr>IconCommon.Width = 16, IconCommon.Height = 16, Color = 0,
            IconCommon.Reserved = 0, IconCommon.Planes = 1,
            IconCommon.BitCount = 32, BytesInRes = 4, ID = 1\<rparr>]\<rparr>"
  by (simp add: read_GRPICONDIR_def read_ICONDIR_def read_RESDIR_def get16_def get32_def)

lemma PE2ICO_resources_example_index0: "PE2ICO_resources DecodeConfig IMG2ICO pngEncode
     [\<lparr>Name = ''14/1/1033'',
       Data = [0, 0, 1, 0, 1, 0, 16, 16, 0, 0, 1, 0, 32, 0, 4, 0, 0, 0, 1, 0]\<rparr>,
      \<lparr>Name = ''3/1/1033'', Data = [1, 2, 3, 4]\<rparr>]
     [\<lparr>Format = '''', Width = 0, Height = 0, Index = 0\<rparr>]
   = Inr (Wrote ([0, 0, 1, 0, 1, 0] @ [16, 16, 0, 0, 1, 0, 32, 0, 4, 0, 0, 0, 22, 0, 0, 0]
                 @ [1, 2, 3, 4]))"
  unfolding PE2ICO_resources_def classify_example
  by (simp add: err_bind_def len_def at_def read_GRPICONDIR_example zero_ICONDIRENTRY_def assign_IconCommon_def
      writeICO_def put_ICONDIR_def put_ICONDIRENTRY_def put_IconCommon_def put16_def put32_def)


text \<open>
  Claim C4. The run-length decompressor reads a control byte \<open>c\<close>: when \<open>c < 0x80\<close> and
  the \<open>c + 1\<close> bytes after it are present, they are copied verbatim and decoding goes
  on behind them; when \<open>c \<ge> 0x80\<close> and one byte follows, that byte is emitted
  \<open>c - 0x80 + 3\<close> times and decoding goes on behind it. Decoding \<open>[0x00, 0xAA]\<close> gives
  \<open>[0xAA]\<close>, decoding \<open>[0x83, 0x42]\<close> gives six bytes \<open>0x42\<close>, and a repeat control
  byte with nothing after it gives the empty output and no failure.
\<close>

theorem icnsBRLDecode_control_bytes:
  "(\<forall>c lits rest out. c < 0x80 \<and> length lits = unat c + 1 \<and> icnsBRLDecode rest = Inr out
       \<longrightarrow> icnsBRLDecode (c # lits @ rest) = Inr (lits @ out))
   \<and> (\<forall>c b rest out. 0x80 \<le> c \<and> icnsBRLDecode rest = Inr out
       \<longrightarrow> icnsBRLDecode (c # b # rest) = Inr (replicate (unat c - 0x80 + 3) b @ out))
   \<and> icnsBRLDecode [0x00, 0xAA] = Inr [0xAA]
   \<and> icnsBRLDecode [0x83, 0x42] = Inr [0x42, 0x42, 0x42, 0x42, 0x42, 0x42]
   \<and> (\<forall>c. 0x80 \<le> c \<longrightarrow> icnsBRLDecode [c] = Inr [])"
proof (intro conjI allI impI)
  show "icnsBRLDecode [0x83, 0x42] = Inr [0x42, 0x42, 0x42, 0x42, 0x42, 0x42]"
    using decode_ex_repeat by (simp add: numeral_eq_Suc)
qed (auto intro: decode_lit decode_rep decode_rep_trunc decode_ex_literal)

theorem icnsBRLDecode_control_bytes_witness:
  "(1 :: byte) < 0x80 \<and> length [5, 6 :: byte] = unat (1 :: byte) + 1
   \<and> icnsBRLDecode [0x81, 7] = Inr [7, 7, 7, 7]
   \<and> icnsBRLDecode (1 # [5, 6] @ [0x81, 7]) = Inr ([5, 6] @ [7, 7, 7, 7])
   \<and> (0x80 :: byte) \<le> 0x82 \<and> icnsBRLDecode [] = Inr []
   \<and> icnsBRLDecode (0x82 # 9 # []) = Inr (replicate (unat (0x82 :: byte) - 0x80 + 3) 9 @ [])
   \<and> icnsBRLDecode [0x82] = Inr []"
proof -
  have a: "(1 :: byte) < 0x80" by simp
  have b: "length [5, 6 :: byte] = unat (1 :: byte) + 1" by simp
  have c: "icnsBRLDecode [0x81, 7] = Inr [7, 7, 7, 7]" by code_simp
  have d: "(0x80 :: byte) \<le> 0x82" by simp
  have e: "icnsBRLDecode [] = Inr []" by code_simp
  note t = icnsBRLDecode_control_bytes
  from t a b c have "icnsBRLDecode (1 # [5, 6] @ [0x81, 7]) = Inr ([5, 6] @ [7, 7, 7, 7])"
    by blast
  moreover from t d e
  have "icnsBRLDecode (0x82 # 9 # []) = Inr (replicate (unat (0x82 :: byte) - 0x80 + 3) 9 @ [])"
    by blast
  moreover from t d have "icnsBRLDecode [0x82] = Inr []" by blast
  ultimately show ?thesis using a b c d e by blast
qed

text \<open>
  Claim C6 says that a negative group index means all groups, and the comment on the
  field \<open>Index\<close> of \<open>Config\<close> says so too. The code reads a group only when the index
  is at least 0; with a negative index the group directory keeps its zero value, its
  count is 0, and the conversion writes the default artwork (lemma
  \<open>PE2ICO_resources_no_index\<close>, for every list of resources). On a file with one group
  of one icon, the index 0 writes the container of that icon and the index \<open>-1\<close> writes
  the default artwork.
\<close>

theorem PE2ICO_negative_index_writes_default:
  "PE2ICO_resources DecodeConfig IMG2ICO pngEncode
     [\<lparr>Name = ''14/1/1033'',
       Data = [0, 0, 1, 0, 1, 0, 16, 16, 0, 0, 1, 0, 32, 0, 4, 0, 0, 0, 1, 0]\<rparr>,
      \<lparr>Name = ''3/1/1033'', Data = [1, 2, 3, 4]\<rparr>]
     [\<lparr>Format = '''', Width = 0, Height = 0, Index = - 1\<rparr>]
   = Inr DefaultICO
   \<and> PE2ICO_resources DecodeConfig IMG2ICO pngEncode
     [\<lparr>Name = ''14/1/1033'',
       Data = [0, 0, 1, 0, 1, 0, 16, 16, 0, 0, 1, 0, 32, 0, 4, 0, 0, 0, 1, 0]\<rparr>,
      \<lparr>Name = ''3/1/1033'', Data = [1, 2, 3, 4]\<rparr>]
     [\<lparr>Format = '''', Width = 0, Height = 0, Index = 0\<rparr>]
   = Inr (Wrote ([0, 0, 1, 0, 1, 0] @ [16, 16, 0, 0, 1, 0, 32, 0, 4, 0, 0, 0, 22, 0, 0, 0]
                 @ [1, 2, 3, 4]))"
proof
  show "PE2ICO_resources DecodeConfig IMG2ICO pngEncode
     [\<lparr>Name = ''14/1/1033'',
       Data = [0, 0, 1, 0, 1, 0, 16, 16, 0, 0, 1, 0, 32, 0, 4, 0, 0, 0, 1, 0]\<rparr>,
      \<lparr>Name = ''3/1/1033'', Data = [1, 2, 3, 4]\<rparr>]
     [\<lparr>Format = '''', Width = 0, Height = 0, Index = - 1\<rparr>]
   = Inr DefaultICO"
    by (rule PE2ICO_resources_no_index) simp
qed (rule PE2ICO_resources_example_index0)

text \<open>
  Claim C7 says that the 32-bit decoder reads the output row \<open>y\<close> from the stored row
  \<open>h - 1 - y\<close>. The code runs \<open>yy\<close> from \<open>h - 1\<close> down to 0 but reads the pixel
  \<open>(xx, yy)\<close> at the offset \<open>yy * w * 4 + xx * 4\<close> and writes it to \<open>(xx, yy)\<close>: the
  output row \<open>y\<close> is the stored row \<open>y\<close>. On a bitmap of width 1 and height 2 whose
  stored rows are the bytes 1, 2, 3, 4 and 5, 6, 7, 8, the top output pixel is made of
  the first stored row and the bottom one of the second.
\<close>

theorem CreateBmp32bpp_rows_not_flipped:
  "map_sum id (\<lambda>bmp. (At bmp (0, 0), At bmp (0, 1)))
     (CreateBmp32bppFromIconResData (replicate 40 0 @ [1, 2, 3, 4] @ [5, 6, 7, 8]) 32 1 2 0)
   = Inr (RGBA 3 2 1 4, RGBA 7 6 5 8)"
  by code_simp

text \<open>
  Claim C8 says that the 8-bit and 4-bit decoders read the pixel indices behind the
  colour table. The code reads them from \<open>src[pixel]\<close> and \<open>src[yy*w/2 + xx/2]\<close>, where
  \<open>src\<close> starts right behind the 40-byte header: the bytes of the colour table are read
  as indices. On a bitmap of one pixel with a table of one colour \<open>B, G, R, A\<close> and the
  index byte 0 behind it, the pixel is not that colour: the first byte of the table
  (9, and the high nibble of \<open>0x19\<close>) is taken as the index, is outside the table, and
  the pixel is transparent black.
\<close>

theorem CreateBmp32bpp_indices_read_from_colour_table:
  "map_sum id (\<lambda>bmp. At bmp (0, 0))
     (CreateBmp32bppFromIconResData (replicate 40 0 @ [9, 8, 7, 255] @ [0]) 8 1 1 1)
   = Inr (RGBA 0 0 0 0)
   \<and> map_sum id (\<lambda>bmp. At bmp (0, 0))
     (CreateBmp32bppFromIconResData (replicate 40 0 @ [0x19, 8, 7, 255] @ [0]) 4 1 1 1)
   = Inr (RGBA 0 0 0 0)"
  by code_simp

text \<open>
  Claim C9 says that a 16-bit pixel is unpacked as 5-6-5 with red in bits 15 to 11,
  green in bits 10 to 5 and blue in bits 4 to 0, each widened to 8 bits. The code takes
  red from bits 14 to 10, leaves green and blue at the bit positions of a packed 32-bit
  colour and then keeps their low 8 bits: a pixel with only the five blue bits set comes
  out green, a pixel with only bit 15 set comes out black, and the blue channel is 0 for
  every pixel and every mask.
\<close>

theorem Convert16BitToARGB_not_565:
  "Convert16BitToARGB 0x001F 0xFFFFFFFF = RGBA 0 252 0 255
   \<and> Convert16BitToARGB 0x8000 0xFFFFFFFF = RGBA 0 0 0 255
   \<and> (\<forall>v m. blue (Convert16BitToARGB v m) = 0)"
  by (simp add: blue_zero) (simp add: Convert16BitToARGB_def)

text \<open>
  Claim C10. A trailing literal run whose declared byte count runs past the end of the
  input adds nothing to the output: the bytes that are present are dropped, whatever was
  decoded before is returned unchanged (decoding \<open>[0x02, 0xAA]\<close> gives the empty
  output). Every read of the model is bounds-checked and fails with \<open>Panic\<close>, and the
  decoder is a total function, so the last conjunct says that it returns on every input
  without reading outside it.
\<close>

theorem icnsBRLDecode_truncated_literal_dropped:
  "(\<forall>data i ret. 0 \<le> i \<and> i < len data \<and> data ! nat i < 0x80
        \<and> len data \<le> i + uint (data ! nat i) + 1
       \<longrightarrow> icnsBRLDecode_loop data i ret = Inr ret)
   \<and> (\<forall>c lits. c < 0x80 \<and> length lits < unat c + 1 \<longrightarrow> icnsBRLDecode (c # lits) = Inr [])
   \<and> icnsBRLDecode [0x02, 0xAA] = Inr []
   \<and> (\<forall>data. \<exists>out. icnsBRLDecode data = Inr out)"
proof (intro conjI allI impI)
  fix data
  show "\<exists>out. icnsBRLDecode data = Inr out"
    unfolding icnsBRLDecode_def by (rule icnsBRLDecode_loop_total) simp
qed (auto intro: loop_lit_trunc decode_lit_trunc decode_ex_truncated_literal)

theorem icnsBRLDecode_truncated_literal_dropped_witness:
  "(0 :: int) \<le> 2 \<and> 2 < len [0x80, 7, 3, 1 :: byte] \<and> [0x80, 7, 3, 1 :: byte] ! nat 2 < 0x80
   \<and> len [0x80, 7, 3, 1 :: byte] \<le> 2 + uint ([0x80, 7, 3, 1 :: byte] ! nat 2) + 1
   \<and> icnsBRLDecode_loop [0x80, 7, 3, 1] 2 [7, 7, 7] = Inr [7, 7, 7]
   \<and> icnsBRLDecode [0x80, 7, 3, 1] = Inr [7, 7, 7]
   \<and> (3 :: byte) < 0x80 \<and> length [1 :: byte] < unat (3 :: byte) + 1
   \<and> icnsBRLDecode (3 # [1]) = Inr []"
proof -
  have a: "(0 :: int) \<le> 2 \<and> 2 < len [0x80, 7, 3, 1 :: byte] \<and> [0x80, 7, 3, 1 :: byte] ! nat 2 < 0x80
     \<and> len [0x80, 7, 3, 1 :: byte] \<le> 2 + uint ([0x80, 7, 3, 1 :: byte] ! nat 2) + 1"
    by (simp add: len_def)
  have b: "(3 :: byte) < 0x80 \<and> length [1 :: byte] < unat (3 :: byte) + 1" by simp
  have c: "icnsBRLDecode [0x80, 7, 3, 1] = Inr [7, 7, 7]" by code_simp
  note t = icnsBRLDecode_truncated_literal_dropped
  from t a have "icnsBRLDecode_loop [0x80, 7, 3, 1] 2 [7, 7, 7] = Inr [7, 7, 7]" by blast
  moreover from t b have "icnsBRLDecode (3 # [1]) = Inr []" by blast
  ultimately show ?thesis using a b c by blast
qed

end
